theory Spec2Isabelle
  imports Complex_Main "HOL-Library.Monad_Syntax"
begin

section \<open>Data model\<close>

text \<open>
  The TypeScript interface \<^verbatim>\<open>KlineData\<close> (declared in both the chart component and the
  market route): six fields of type \<^verbatim>\<open>number\<close>. The type of numbers is the parameter
  \<open>'n\<close>: the route and the stream handler only move the results of \<^verbatim>\<open>Number\<close> and
  \<^verbatim>\<open>parseFloat\<close> around, the indicator computations calculate with them and are
  stated on \<open>real KlineData\<close>, i.e. on finite numbers with exact arithmetic (the spec's
  data model: open, high, low, close and volume are reals).
\<close>

record 'n KlineData =
  timestamp :: 'n
  "open" :: 'n
  high :: 'n
  low :: 'n
  close :: 'n
  volume :: 'n

text \<open>
  The chart points \<^verbatim>\<open>{ x: new Date(t), y: v }\<close> pushed to the series arrays. The
  \<^verbatim>\<open>Date\<close> is represented by the millisecond timestamp it is built from.
\<close>

record ('n, 'v) point =
  x :: 'n
  y :: 'v

record ('n, 'v) volume_point = "('n, 'v) point" +
  fillColor :: string

section \<open>Arithmetic that can leave the finite numbers\<close>

text \<open>
  With exact arithmetic on finite numbers, the only operation of the indicator code
  whose result can be non-finite is a division by zero. \<open>None\<close> stands for such a
  result. In \<open>calculateRSI\<close> a division by \<open>period = 0\<close> is \<^verbatim>\<open>0/0\<close>, that
  is \<^verbatim>\<open>NaN\<close>, which every later operation keeps (so \<open>None\<close> is passed on); a
  division \<^verbatim>\<open>100 / (1 + rs)\<close> by zero is an infinity and makes the emitted value
  infinite.
\<close>

definition js_div :: "real \<Rightarrow> real \<Rightarrow> real option" where
  "js_div a b = (if b = 0 then None else Some (a / b))"

section \<open>Simple moving averages (the two loops of the chart effect)\<close>

text \<open>
  The inner loop \<^verbatim>\<open>for (j = 0; j < n; j++) sum += marketData[i - j].close\<close>,
  started from \<^verbatim>\<open>sum = 0\<close>; the second argument counts the iterations done.
\<close>

fun sum_closes :: "real KlineData list \<Rightarrow> nat \<Rightarrow> nat \<Rightarrow> real" where
  "sum_closes marketData i 0 = 0"
| "sum_closes marketData i (Suc j) = sum_closes marketData i j + close (marketData ! (i - j))"

text \<open>
  The outer loop \<^verbatim>\<open>for (i = period - 1; i < marketData.length; i++) sma.push(...)\<close>.
  The source writes it twice, with the constants 20 and 50 inlined.
\<close>

function sma_loop ::
  "nat \<Rightarrow> real KlineData list \<Rightarrow> nat \<Rightarrow> (real, real) point list \<Rightarrow> (real, real) point list"
where
  "sma_loop period marketData i sma =
     (if i < length marketData
      then sma_loop period marketData (i + 1)
             (sma @ [\<lparr>x = timestamp (marketData ! i),
                      y = sum_closes marketData i period / real period\<rparr>])
      else sma)"
  by pat_completeness auto
termination
  by (relation "measure (\<lambda>(period, marketData, i, sma). length marketData - i)") auto

declare sma_loop.simps [simp del]

definition sma20 :: "real KlineData list \<Rightarrow> (real, real) point list" where
  "sma20 marketData = sma_loop 20 marketData 19 []"

definition sma50 :: "real KlineData list \<Rightarrow> (real, real) point list" where
  "sma50 marketData = sma_loop 50 marketData 49 []"

section \<open>Relative strength index (calculateRSI)\<close>

text \<open>The first loop: \<^verbatim>\<open>changes.push(data[i].close - data[i - 1].close)\<close> for \<open>i\<close> from 1.\<close>

function changes_loop :: "real KlineData list \<Rightarrow> nat \<Rightarrow> real list \<Rightarrow> real list" where
  "changes_loop data i changes =
     (if i < length data
      then changes_loop data (i + 1) (changes @ [close (data ! i) - close (data ! (i - 1))])
      else changes)"
  by pat_completeness auto
termination
  by (relation "measure (\<lambda>(data, i, changes). length data - i)") auto

declare changes_loop.simps [simp del]

text \<open>
  The seed loop over the first \<open>period\<close> changes; the pair is
  \<^verbatim>\<open>(avgGain, avgLoss)\<close> before the two divisions by \<open>period\<close>.
\<close>

fun seed_loop :: "real list \<Rightarrow> nat \<Rightarrow> real \<times> real" where
  "seed_loop changes 0 = (0, 0)"
| "seed_loop changes (Suc i) =
     (let (avgGain, avgLoss) = seed_loop changes i
      in if changes ! i > 0 then (avgGain + changes ! i, avgLoss)
         else (avgGain, avgLoss + \<bar>changes ! i\<bar>))"

text \<open>
  \<^verbatim>\<open>rs = avgGain / (avgLoss === 0 ? 0.001 : avgLoss); rsiValue = 100 - 100 / (1 + rs)\<close>.
\<close>

definition rsi_value :: "real option \<Rightarrow> real option \<Rightarrow> real option" where
  "rsi_value avgGain avgLoss =
     do {
       g \<leftarrow> avgGain;
       l \<leftarrow> avgLoss;
       rs \<leftarrow> js_div g (if l = 0 then 0.001 else l);
       q \<leftarrow> js_div 100 (1 + rs);
       Some (100 - q)
     }"

text \<open>\<^verbatim>\<open>avg = (avg * (period - 1) + v) / period\<close>, Wilder's smoothing step.\<close>

definition smooth :: "real option \<Rightarrow> nat \<Rightarrow> real \<Rightarrow> real option" where
  "smooth avg period v =
     do { a \<leftarrow> avg; js_div (a * (real period - 1) + v) (real period) }"

text \<open>The last loop, \<open>i\<close> from \<open>period\<close> while \<open>i < changes.length\<close>.\<close>

function rsi_loop ::
  "real KlineData list \<Rightarrow> real list \<Rightarrow> nat \<Rightarrow> nat \<Rightarrow> real option \<Rightarrow> real option \<Rightarrow>
   (real, real option) point list \<Rightarrow> (real, real option) point list"
where
  "rsi_loop data changes period i avgGain avgLoss result =
     (if i < length changes
      then
        let change = changes ! i;
            gain = (if change > 0 then change else 0);
            loss = (if change < 0 then \<bar>change\<bar> else 0);
            avgGain' = smooth avgGain period gain;
            avgLoss' = smooth avgLoss period loss
        in rsi_loop data changes period (i + 1) avgGain' avgLoss'
             (result @ [\<lparr>x = timestamp (data ! (i + 1)), y = rsi_value avgGain' avgLoss'\<rparr>])
      else result)"
  by pat_completeness auto
termination
  by (relation "measure (\<lambda>(data, changes, period, i, avgGain, avgLoss, result).
                           length changes - i)") auto

declare rsi_loop.simps [simp del]

definition calculateRSI ::
  "real KlineData list \<Rightarrow> nat \<Rightarrow> (real, real option) point list"
where
  "calculateRSI data period =
     (if length data \<le> period then []
      else
        let changes = changes_loop data 1 [];
            (sumGain, sumLoss) = seed_loop changes period;
            avgGain = js_div sumGain (real period);
            avgLoss = js_div sumLoss (real period)
        in rsi_loop data changes period period avgGain avgLoss
             [\<lparr>x = timestamp (data ! period), y = rsi_value avgGain avgLoss\<rparr>])"

subsection \<open>Wilder's smoothing as the specification words it\<close>

text \<open>
  The definitions of this subsection follow the specification, not the code; the
  theorems below compare \<open>calculateRSI\<close> with them. The price changes are the
  differences of consecutive closes.
\<close>

definition price_changes :: "real KlineData list \<Rightarrow> real list" where
  "price_changes data =
     map (\<lambda>i. close (data ! (i + 1)) - close (data ! i)) [0..<length data - 1]"

text \<open>
  Seed phase, over the first \<open>period\<close> changes: the average gain is the mean of the
  positive changes, the average loss the mean of the absolute negative changes, both
  taken over the window of \<open>period\<close> changes.
\<close>

definition seed_avg_gain :: "real list \<Rightarrow> nat \<Rightarrow> real" where
  "seed_avg_gain changes period =
     sum_list (filter (\<lambda>d. 0 < d) (take period changes)) / real period"

definition seed_avg_loss :: "real list \<Rightarrow> nat \<Rightarrow> real" where
  "seed_avg_loss changes period =
     sum_list (map abs (filter (\<lambda>d. d < 0) (take period changes))) / real period"

text \<open>
  Steady state: \<open>wilder_avg changes period k\<close> is the pair (average gain, average loss)
  after \<open>k\<close> smoothing steps, each step taking the next change \<open>d\<close> with
  gain \<open>max d 0\<close> and loss \<open>max (- d) 0\<close>.
\<close>

fun wilder_avg :: "real list \<Rightarrow> nat \<Rightarrow> nat \<Rightarrow> real \<times> real" where
  "wilder_avg changes period 0 = (seed_avg_gain changes period, seed_avg_loss changes period)"
| "wilder_avg changes period (Suc k) =
     (let (avgGain, avgLoss) = wilder_avg changes period k;
          d = changes ! (period + k)
      in ((avgGain * (real period - 1) + max d 0) / real period,
          (avgLoss * (real period - 1) + max (- d) 0) / real period))"

text \<open>\<open>RSI = 100 - 100 / (1 + RS)\<close>, with the zero average loss replaced by 0.001.\<close>

definition rsi_formula :: "real \<times> real \<Rightarrow> real" where
  "rsi_formula avgs =
     (let (avgGain, avgLoss) = avgs;
          RS = avgGain / (if avgLoss = 0 then 0.001 else avgLoss)
      in 100 - 100 / (1 + RS))"

text \<open>One point for each candle index from \<open>period\<close> on, the first one from the seed.\<close>

definition wilder_rsi :: "real KlineData list \<Rightarrow> nat \<Rightarrow> (real, real option) point list" where
  "wilder_rsi data period =
     map (\<lambda>n. \<lparr>x = timestamp (data ! n),
               y = Some (rsi_formula (wilder_avg (price_changes data) period (n - period)))\<rparr>)
         [period..<length data]"

section \<open>Errors and responses\<close>

text \<open>
  What the two asynchronous functions can throw: a rejected promise of \<^verbatim>\<open>fetch\<close>,
  \<^verbatim>\<open>text()\<close> or \<^verbatim>\<open>json()\<close>; a \<^verbatim>\<open>TypeError\<close> of the runtime (a property of
  \<^verbatim>\<open>null\<close>, \<^verbatim>\<open>map\<close> on something that has none, destructuring something
  that is not iterable); and the three \<^verbatim>\<open>new Error(...)\<close> of the code, kept with the
  values their messages are built from.
\<close>

datatype error =
    Rejected
  | TypeError
  | FailedToFetch nat string
  | NoDataReceived
  | ApiRespondedWithStatus nat

text \<open>
  The part of a \<^verbatim>\<open>Response\<close> the code reads. \<open>'j\<close> is the type of the parsed
  body; \<open>None\<close> in \<open>text\<close> and \<open>json\<close> is a promise that rejects.
\<close>

record 'j response =
  ok :: bool
  status :: nat
  statusText :: string
  "text" :: "string option"
  json :: "'j option"

section \<open>fetchMarketData\<close>

text \<open>
  \<open>fetch\<close> is the network: what \<^verbatim>\<open>await fetch(url)\<close> gives for a URL. The body is
  typed \<^verbatim>\<open>KlineData[]\<close>; \<open>None\<close> is \<^verbatim>\<open>null\<close>, on which \<^verbatim>\<open>data.length\<close> in the
  logging line throws before the emptiness test is reached. The \<^verbatim>\<open>catch\<close> block
  logs and rethrows, so every error leaves the function.
\<close>

definition market_url :: "string \<Rightarrow> string \<Rightarrow> string" where
  "market_url symbol interval = ''/api/market?symbol='' @ symbol @ ''&interval='' @ interval"

definition fetchMarketData ::
  "(string \<Rightarrow> error + 'n KlineData list option response) \<Rightarrow> string \<Rightarrow> string \<Rightarrow>
   error + 'n KlineData list"
where
  "fetchMarketData fetch symbol interval =
     (case fetch (market_url symbol interval) of
        Inl e \<Rightarrow> Inl e
      | Inr response \<Rightarrow>
          if \<not> ok response then
            (case text response of
               None \<Rightarrow> Inl Rejected
             | Some errorText \<Rightarrow> Inl (FailedToFetch (status response) (statusText response)))
          else
            (case json response of
               None \<Rightarrow> Inl Rejected
             | Some None \<Rightarrow> Inl TypeError
             | Some (Some data) \<Rightarrow>
                 if length data = 0 then Inl NoDataReceived else Inr data))"

section \<open>The chart component's state\<close>

text \<open>
  The \<^verbatim>\<open>useState\<close> cells the two effects write. An RSI value is a number that
  may be non-finite, hence the \<open>option\<close>.
\<close>

record 'n chart_state =
  currentPrice :: "'n option"
  candlestickData :: "('n, 'n list) point list"
  volumeData :: "('n, 'n) volume_point list"
  rsiData :: "('n, 'n option) point list"
  sma20Data :: "('n, 'n) point list"
  sma50Data :: "('n, 'n) point list"

text \<open>
  The effect on \<^verbatim>\<open>marketData\<close>; \<open>None\<close> is the \<^verbatim>\<open>undefined\<close> of a query without
  data, on which the effect returns at once.
\<close>

definition process_market_data ::
  "real KlineData list option \<Rightarrow> real chart_state \<Rightarrow> real chart_state"
where
  "process_market_data marketData s =
     (case marketData of
        None \<Rightarrow> s
      | Some marketData \<Rightarrow>
          let ohlc = map (\<lambda>candle. \<lparr>x = timestamp candle,
                                     y = [open candle, high candle, low candle, close candle]\<rparr>)
                         marketData;
              volume' = map (\<lambda>candle. \<lparr>x = timestamp candle, y = volume candle,
                                        fillColor = (if close candle \<ge> open candle
                                                     then ''#26a69a'' else ''#ef5350'')\<rparr>)
                            marketData;
              rsi = calculateRSI marketData 14;
              s' = s\<lparr>candlestickData := ohlc, volumeData := volume',
                      sma20Data := sma20 marketData, sma50Data := sma50 marketData,
                      rsiData := rsi\<rparr>
          in if length marketData > 0
             then s'\<lparr>currentPrice := Some (close (last marketData))\<rparr>
             else s')"

section \<open>The stream handler (ws.onmessage)\<close>

text \<open>The \<^verbatim>\<open>k\<close> object of a stream message: \<^verbatim>\<open>t, o, h, l, c, v, x\<close>.\<close>

datatype 'n kline =
  Kline (k_t: 'n) (k_o: string) (k_h: string) (k_l: string) (k_c: string) (k_v: string)
        (k_x: bool)

text \<open>
  \<open>Unparsable\<close>: \<^verbatim>\<open>JSON.parse(event.data)\<close> throws; \<open>Message None\<close>: the parsed
  message has no \<^verbatim>\<open>k\<close>.
\<close>

datatype 'n ws_message = Unparsable | Message "'n kline option"

text \<open>
  The handler returns the new state and whether \<^verbatim>\<open>refetch()\<close> was called.
  \<open>captured\<close> is the \<^verbatim>\<open>candlestickData\<close> of the render in which the handler was
  created (its closure), which need not be the current one.
\<close>

definition onmessage ::
  "(string \<Rightarrow> 'n) \<Rightarrow> ('n, 'n list) point list \<Rightarrow> 'n ws_message \<Rightarrow> 'n chart_state \<Rightarrow>
   'n chart_state \<times> bool"
where
  "onmessage parseFloat captured event s =
     (case event of
        Unparsable \<Rightarrow> (s, False)
      | Message None \<Rightarrow> (s, False)
      | Message (Some k) \<Rightarrow>
          let closePrice = parseFloat (k_c k);
              s' = s\<lparr>currentPrice := Some closePrice\<rparr>
          in if k_x k \<and> length captured > 0 then (s', True) else (s', False))"

section \<open>The market route (GET)\<close>

text \<open>The values \<^verbatim>\<open>response.json()\<close> can give, and \<^verbatim>\<open>undefined\<close>.\<close>

datatype jsval =
    JUndefined
  | JNull
  | JBool bool
  | JNum real
  | JStr string
  | JArr "jsval list"
  | JObj "(string \<times> jsval) list"

text \<open>Array destructuring works on iterables: arrays, and strings character by character.\<close>

fun iterable :: "jsval \<Rightarrow> bool" where
  "iterable (JArr vs) = True"
| "iterable (JStr s) = True"
| "iterable v = False"

fun elements :: "jsval \<Rightarrow> jsval list" where
  "elements (JArr vs) = vs"
| "elements (JStr s) = map (\<lambda>c. JStr [c]) s"
| "elements v = []"

definition elem_at :: "jsval list \<Rightarrow> nat \<Rightarrow> jsval" where
  "elem_at vs i = (if i < length vs then vs ! i else JUndefined)"

text \<open>
  The callback of \<^verbatim>\<open>data.map\<close>: the parameter pattern
  \<^verbatim>\<open>[timestamp, open, high, low, close, volume]\<close> throws on a row that is not
  iterable and gives \<^verbatim>\<open>undefined\<close> for a missing position; the body builds the
  object. \<^verbatim>\<open>Number\<close> and \<^verbatim>\<open>parseFloat\<close> are the runtime's; they are parameters
  here and never throw on these values.
\<close>

definition kline_of :: "(jsval \<Rightarrow> 'n) \<Rightarrow> (jsval \<Rightarrow> 'n) \<Rightarrow> jsval list \<Rightarrow> 'n KlineData" where
  "kline_of Number parseFloat vs =
     \<lparr>timestamp = Number (elem_at vs 0), open = parseFloat (elem_at vs 1),
      high = parseFloat (elem_at vs 2), low = parseFloat (elem_at vs 3),
      close = parseFloat (elem_at vs 4), volume = parseFloat (elem_at vs 5)\<rparr>"

definition format_row ::
  "(jsval \<Rightarrow> 'n) \<Rightarrow> (jsval \<Rightarrow> 'n) \<Rightarrow> jsval \<Rightarrow> error + 'n KlineData"
where
  "format_row Number parseFloat row =
     (if iterable row then Inr (kline_of Number parseFloat (elements row)) else Inl TypeError)"

text \<open>\<^verbatim>\<open>Array.prototype.map\<close> with a callback that can throw: the first throw ends it.\<close>

fun map_throwing :: "('a \<Rightarrow> error + 'b) \<Rightarrow> 'a list \<Rightarrow> error + 'b list" where
  "map_throwing f [] = Inr []"
| "map_throwing f (a # as) =
     (case f a of
        Inl e \<Rightarrow> Inl e
      | Inr b \<Rightarrow> (case map_throwing f as of Inl e \<Rightarrow> Inl e | Inr bs \<Rightarrow> Inr (b # bs)))"

text \<open>\<^verbatim>\<open>searchParams.get(name) || fallback\<close>: the fallback also replaces the empty string.\<close>

definition param_or :: "(string \<rightharpoonup> string) \<Rightarrow> string \<Rightarrow> string \<Rightarrow> string" where
  "param_or searchParams name fallback =
     (case searchParams name of
        None \<Rightarrow> fallback
      | Some v \<Rightarrow> if v = [] then fallback else v)"

definition klines_url :: "(string \<rightharpoonup> string) \<Rightarrow> string" where
  "klines_url searchParams =
     (let symbol = param_or searchParams ''symbol'' ''BTCUSDT'';
          interval = param_or searchParams ''interval'' ''1m'';
          limit = param_or searchParams ''limit'' ''500''
      in ''https://api.binance.com/api/v3/klines?symbol='' @ symbol @ ''&interval='' @ interval
           @ ''&limit='' @ limit)"

text \<open>The body of the \<^verbatim>\<open>try\<close> block, up to \<^verbatim>\<open>formattedData\<close>.\<close>

definition formattedData ::
  "(jsval \<Rightarrow> 'n) \<Rightarrow> (jsval \<Rightarrow> 'n) \<Rightarrow> (string \<Rightarrow> error + jsval response) \<Rightarrow>
   (string \<rightharpoonup> string) \<Rightarrow> error + 'n KlineData list"
where
  "formattedData Number parseFloat fetch searchParams =
     (case fetch (klines_url searchParams) of
        Inl e \<Rightarrow> Inl e
      | Inr response \<Rightarrow>
          if \<not> ok response then Inl (ApiRespondedWithStatus (status response))
          else
            (case json response of
               None \<Rightarrow> Inl Rejected
             | Some (JArr rows) \<Rightarrow> map_throwing (format_row Number parseFloat) rows
             | Some data \<Rightarrow> Inl TypeError))"

text \<open>\<^verbatim>\<open>NextResponse.json(body, { status })\<close>; the status is 200 when none is given.\<close>

record 'b NextResponse =
  response_body :: 'b
  response_status :: nat

definition GET ::
  "(jsval \<Rightarrow> 'n) \<Rightarrow> (jsval \<Rightarrow> 'n) \<Rightarrow> (string \<Rightarrow> error + jsval response) \<Rightarrow>
   (string \<rightharpoonup> string) \<Rightarrow> 'n KlineData list NextResponse"
where
  "GET Number parseFloat fetch searchParams =
     (case formattedData Number parseFloat fetch searchParams of
        Inr formatted \<Rightarrow> \<lparr>response_body = formatted, response_status = 200\<rparr>
      | Inl e \<Rightarrow> \<lparr>response_body = [], response_status = 500\<rparr>)"

section \<open>Example inputs\<close>

text \<open>A candle at time \<open>t\<close> whose four prices are all \<open>c\<close>.\<close>

definition candle :: "real \<Rightarrow> real \<Rightarrow> real KlineData" where
  "candle t c = \<lparr>timestamp = t, open = c, high = c, low = c, close = c, volume = 0\<rparr>"

text \<open>Twenty candles with the closes 10, 11, ..., 29.\<close>

definition closes_10_29 :: "real KlineData list" where
  "closes_10_29 = map (\<lambda>i. candle (real i) (10 + real i)) [0..<20]"


text \<open>Sixteen candles whose close rises by 0.001 each time: fifteen equal gains.\<close>

definition small_rise :: "real KlineData list" where
  "small_rise = map (\<lambda>i. candle (real i) (real i / 1000)) [0..<16]"

text \<open>Three candles: too few for any indicator.\<close>

definition three_candles :: "real KlineData list" where
  "three_candles = [candle 0 5, candle 1 6, candle 2 4]"


definition closed_tick :: "real ws_message" where
  "closed_tick = Message (Some (Kline 60000 ''100.0'' ''101.5'' ''99.5'' ''101.0'' ''12.5'' True))"

definition parse_101 :: "string \<Rightarrow> real" where
  "parse_101 s = (if s = ''101.0'' then 101 else 0)"

definition empty_chart :: "real chart_state" where
  "empty_chart = \<lparr>currentPrice = None, candlestickData = [], volumeData = [], rsiData = [],
                   sma20Data = [], sma50Data = []\<rparr>"

text \<open>
  Responses of the market route as the client sees them: the error path (status 500,
  body \<^verbatim>\<open>[]\<close>), a success with an empty array, a success with one candle.
\<close>

definition route_error :: "real KlineData list option response" where
  "route_error = \<lparr>ok = False, status = 500, statusText = ''Internal Server Error'',
                   text = Some ''[]'', json = Some (Some [])\<rparr>"

definition route_empty :: "real KlineData list option response" where
  "route_empty = \<lparr>ok = True, status = 200, statusText = ''OK'',
                   text = Some ''[]'', json = Some (Some [])\<rparr>"

definition route_one_candle :: "real KlineData list option response" where
  "route_one_candle = \<lparr>ok = True, status = 200, statusText = ''OK'',
                        text = Some ''[...]'', json = Some (Some [candle 0 5])\<rparr>"

text \<open>
  Upstream responses to the route: two kline rows (the second one short), and a
  refusal with status 429.
\<close>

definition upstream_rows :: "jsval response" where
  "upstream_rows =
     \<lparr>ok = True, status = 200, statusText = ''OK'', text = Some ''[...]'',
      json = Some (JArr [JArr [JNum 60000, JStr ''1.0'', JStr ''2.0'', JStr ''0.5'', JStr ''1.5'',
                               JStr ''10.0'', JNum 119999],
                         JArr [JNum 120000, JStr ''1.5'']])\<rparr>"

definition upstream_refused :: "jsval response" where
  "upstream_refused =
     \<lparr>ok = False, status = 429, statusText = ''Too Many Requests'', text = Some ''busy'',
      json = None\<rparr>"

section \<open>The loops in closed form\<close>

lemma sum_closes_eq: "sum_closes d i n = (\<Sum>j<n. close (d ! (i - j)))"
  by (induction n) simp_all

lemma sma_loop_eq:
  "sma_loop p d i acc =
     acc @ map (\<lambda>k. \<lparr>x = timestamp (d ! k), y = sum_closes d k p / real p\<rparr>) [i..<length d]"
proof (induction p d i acc rule: sma_loop.induct)
  case (1 p d i acc)
  show ?case
  proof (cases "i < length d")
    case True
    with "1" show ?thesis
      by (subst sma_loop.simps) (simp add: upt_conv_Cons)
  next
    case False
    then show ?thesis by (subst sma_loop.simps) simp
  qed
qed

lemma changes_loop_eq:
  "changes_loop d i acc =
     acc @ map (\<lambda>k. close (d ! k) - close (d ! (k - 1))) [i..<length d]"
proof (induction d i acc rule: changes_loop.induct)
  case (1 d i acc)
  show ?case
  proof (cases "i < length d")
    case True
    with "1" show ?thesis
      by (subst changes_loop.simps) (simp add: upt_conv_Cons)
  next
    case False
    then show ?thesis by (subst changes_loop.simps) simp
  qed
qed

lemma changes_loop_price_changes: "changes_loop data 1 [] = price_changes data"
proof -
  have "length (changes_loop data 1 []) = length (price_changes data)"
    by (simp add: changes_loop_eq price_changes_def)
  moreover have "changes_loop data 1 [] ! k = price_changes data ! k"
    if "k < length (price_changes data)" for k
    using that by (simp add: changes_loop_eq price_changes_def)
  ultimately show ?thesis by (simp add: list_eq_iff_nth_eq)
qed

lemma seed_loop_eq:
  "n \<le> length ch \<Longrightarrow>
   seed_loop ch n = (sum_list (filter (\<lambda>d. 0 < d) (take n ch)),
                     sum_list (map abs (filter (\<lambda>d. d < 0) (take n ch))))"
proof (induction n)
  case 0
  then show ?case by simp
next
  case (Suc n)
  then have lt: "n < length ch" by simp
  have tk: "take (Suc n) ch = take n ch @ [ch ! n]"
    using lt by (simp add: take_Suc_conv_app_nth)
  have IH: "seed_loop ch n = (sum_list (filter (\<lambda>d. 0 < d) (take n ch)),
                     sum_list (map abs (filter (\<lambda>d. d < 0) (take n ch))))"
    using Suc by simp
  consider (pos) "0 < ch ! n" | (zero) "ch ! n = 0" | (neg) "ch ! n < 0"
    by linarith
  then show ?case
  proof cases
    case pos
    then show ?thesis unfolding tk by (simp add: IH)
  next
    case zero
    then show ?thesis unfolding tk by (simp add: IH)
  next
    case neg
    then show ?thesis unfolding tk by (simp add: IH)
  qed
qed

lemma seed_avg_nonneg: "0 \<le> seed_avg_gain ch p" "0 \<le> seed_avg_loss ch p"
proof -
  have "0 \<le> sum_list (filter (\<lambda>d. 0 < d) (take p ch))"
    by (rule sum_list_nonneg) auto
  then show "0 \<le> seed_avg_gain ch p" by (simp add: seed_avg_gain_def)
  have "0 \<le> sum_list (map abs (filter (\<lambda>d. d < 0) (take p ch)))"
    by (rule sum_list_nonneg) auto
  then show "0 \<le> seed_avg_loss ch p" by (simp add: seed_avg_loss_def)
qed

lemma wilder_avg_nonneg:
  "0 < p \<Longrightarrow> 0 \<le> fst (wilder_avg ch p k) \<and> 0 \<le> snd (wilder_avg ch p k)"
proof (induction k)
  case 0
  then show ?case by (simp add: seed_avg_nonneg)
next
  case (Suc k)
  then have g: "0 \<le> fst (wilder_avg ch p k)" and l: "0 \<le> snd (wilder_avg ch p k)"
    by simp_all
  from Suc.prems have p1: "0 \<le> real p - 1" by simp
  have "0 \<le> fst (wilder_avg ch p k) * (real p - 1) + max (ch ! (p + k)) 0"
    using g p1 by (intro add_nonneg_nonneg mult_nonneg_nonneg) simp_all
  moreover have "0 \<le> snd (wilder_avg ch p k) * (real p - 1) + max (- ch ! (p + k)) 0"
    using l p1 by (intro add_nonneg_nonneg mult_nonneg_nonneg) simp_all
  ultimately show ?case
    by (simp add: case_prod_unfold Let_def)
qed

lemma rsi_value_eq:
  assumes "0 \<le> g" "0 \<le> l"
  shows "rsi_value (Some g) (Some l) = Some (rsi_formula (g, l))"
proof -
  have "0 \<le> g / (if l = 0 then 0.001 else l)"
    using assms by simp
  then have "1 + g / (if l = 0 then 0.001 else l) \<noteq> 0" by linarith
  then show ?thesis
    by (simp add: rsi_value_def rsi_formula_def js_div_def Let_def)
qed


lemma smooth_eq:
  "0 < p \<Longrightarrow> smooth (Some a) p v = Some ((a * (real p - 1) + v) / real p)"
  by (simp add: smooth_def js_div_def)

lemma rsi_loop_step:
  assumes "0 < p" "i < length ch"
  shows "rsi_loop data ch p i (Some g) (Some l) acc =
     rsi_loop data ch p (i + 1)
       (Some ((g * (real p - 1) + max (ch ! i) 0) / real p))
       (Some ((l * (real p - 1) + max (- ch ! i) 0) / real p))
       (acc @ [\<lparr>x = timestamp (data ! (i + 1)),
                y = rsi_value (Some ((g * (real p - 1) + max (ch ! i) 0) / real p))
                              (Some ((l * (real p - 1) + max (- ch ! i) 0) / real p))\<rparr>])"
proof -
  have gain: "(if ch ! i > 0 then ch ! i else 0) = max (ch ! i) 0" by simp
  have loss: "(if ch ! i < 0 then \<bar>ch ! i\<bar> else 0) = max (- ch ! i) 0" by simp
  show ?thesis
    using assms
    by (subst rsi_loop.simps) (simp only: Let_def gain loss smooth_eq if_True)
qed

lemma rsi_loop_eq:
  assumes "0 < p" "p \<le> i"
    and "wilder_avg ch p (i - p) = (g, l)"
  shows "rsi_loop data ch p i (Some g) (Some l) acc =
     acc @ map (\<lambda>n. \<lparr>x = timestamp (data ! n),
                      y = Some (rsi_formula (wilder_avg ch p (n - p)))\<rparr>)
               [i + 1..<length ch + 1]"
  using assms(2,3)
proof (induction "length ch - i" arbitrary: i g l acc)
  case 0
  then have "\<not> i < length ch" by simp
  then show ?case by (subst rsi_loop.simps) simp
next
  case (Suc m)
  then have lt: "i < length ch" by simp
  define g' where "g' = (g * (real p - 1) + max (ch ! i) 0) / real p"
  define l' where "l' = (l * (real p - 1) + max (- ch ! i) 0) / real p"
  have idx: "Suc i - p = Suc (i - p)" "p + (i - p) = i"
    using \<open>p \<le> i\<close> by simp_all
  have step: "wilder_avg ch p (Suc i - p) = (g', l')"
    using Suc.prems(2) by (simp add: idx g'_def l'_def Let_def)
  have nn: "0 \<le> g'" "0 \<le> l'"
    using wilder_avg_nonneg[OF \<open>0 < p\<close>, of ch "Suc i - p"] by (simp_all add: step)
  have IH: "rsi_loop data ch p (Suc i) (Some g') (Some l') acc' =
       acc' @ map (\<lambda>n. \<lparr>x = timestamp (data ! n),
                      y = Some (rsi_formula (wilder_avg ch p (n - p)))\<rparr>)
               [Suc i + 1..<length ch + 1]" for acc'
    using Suc.hyps(1)[of "Suc i" g' l' acc'] Suc.hyps(2) Suc.prems(1) step by simp
  have upt: "[i + 1..<length ch + 1] = Suc i # [Suc i + 1..<length ch + 1]"
    using lt by (simp add: upt_conv_Cons)
  show ?case
    unfolding rsi_loop_step[OF \<open>0 < p\<close> lt] g'_def[symmetric] l'_def[symmetric] upt
    by (simp add: IH rsi_value_eq[OF nn] step)
qed

lemma calculateRSI_eq:
  assumes "0 < period"
  shows "calculateRSI data period = wilder_rsi data period"
proof (cases "length data \<le> period")
  case True
  then show ?thesis by (simp add: calculateRSI_def wilder_rsi_def)
next
  case False
  define ch where "ch = price_changes data"
  have len: "length ch = length data - 1" by (simp add: ch_def price_changes_def)
  then have ple: "period \<le> length ch" using False by simp
  define g where "g = seed_avg_gain ch period"
  define l where "l = seed_avg_loss ch period"
  have w0: "wilder_avg ch period (period - period) = (g, l)"
    by (simp add: g_def l_def)
  have nn: "0 \<le> g" "0 \<le> l" by (simp_all add: g_def l_def seed_avg_nonneg)
  have seed: "seed_loop ch period = (g * real period, l * real period)"
    using assms by (simp add: seed_loop_eq[OF ple] g_def l_def seed_avg_gain_def seed_avg_loss_def)
  have dg: "js_div (g * real period) (real period) = Some g"
    and dl: "js_div (l * real period) (real period) = Some l"
    using assms by (simp_all add: js_div_def)
  have len1: "length ch + 1 = length data" using False len by simp
  have upt: "[period..<length data] = period # [period + 1..<length ch + 1]"
    unfolding len1 using False by (simp add: upt_conv_Cons)
  have "calculateRSI data period =
      rsi_loop data ch period period (Some g) (Some l)
        [\<lparr>x = timestamp (data ! period), y = rsi_value (Some g) (Some l)\<rparr>]"
    unfolding calculateRSI_def changes_loop_price_changes ch_def[symmetric]
    using False by (simp add: Let_def seed dg dl)
  also have "\<dots> = wilder_rsi data period"
    unfolding rsi_loop_eq[OF assms order_refl w0] wilder_rsi_def ch_def[symmetric] upt
      rsi_value_eq[OF nn]
    by (simp add: g_def l_def)
  finally show ?thesis .
qed


lemma map_nth_upt_drop: "map (\<lambda>k. f (d ! k)) [n..<length d] = map f (drop n d)"
  by (simp add: list_eq_iff_nth_eq)

lemma sma20_eq:
  "sma20 d = map (\<lambda>k. \<lparr>x = timestamp (d ! k), y = sum_closes d k 20 / 20\<rparr>) [19..<length d]"
  by (simp add: sma20_def sma_loop_eq)

lemma sma50_eq:
  "sma50 d = map (\<lambda>k. \<lparr>x = timestamp (d ! k), y = sum_closes d k 50 / 50\<rparr>) [49..<length d]"
  by (simp add: sma50_def sma_loop_eq)






section \<open>Facts about the relative strength index\<close>



lemma calculateRSI_small_rise:
  "calculateRSI small_rise 14 = [\<lparr>x = 14, y = Some 50\<rparr>, \<lparr>x = 15, y = Some 50\<rparr>]"
  by code_simp







section \<open>Claims about the indicators\<close>





text \<open>
  C3. For every period above zero, \<open>calculateRSI\<close> is Wilder's smoothing in two
  phases as the specification words it (\<open>wilder_rsi\<close>): one point per candle index from
  \<open>period\<close> on; the first from the seed averages, which are the sum of the positive
  changes and the sum of the absolute negative changes among the first \<open>period\<close>
  changes, each divided by \<open>period\<close>; every later one after a smoothing step
  \<open>avg = (avg * (period - 1) + v) / period\<close> with \<open>v = max d 0\<close> for the gain and
  \<open>v = max (- d) 0\<close> for the loss; the value is \<open>100 - 100 / (1 + RS)\<close>.
\<close>

theorem calculateRSI_is_wilder:
  assumes "0 < period"
  shows "calculateRSI data period = wilder_rsi data period"
  using assms by (rule calculateRSI_eq)

theorem calculateRSI_is_wilder_witness:
  "0 < (14::nat) \<and> calculateRSI small_rise 14 = wilder_rsi small_rise 14 \<and>
   wilder_rsi small_rise 14 = [\<lparr>x = 14, y = Some 50\<rparr>, \<lparr>x = 15, y = Some 50\<rparr>]"
  using calculateRSI_is_wilder[of 14 small_rise] calculateRSI_small_rise by simp




text \<open>
  C7. No indicator has a point for an index before its window is full: the SMA(20)
  series has one point for each candle from index 19 on and none before (its
  timestamps are those of the candles without the first 19), likewise the SMA(50)
  series from index 49 and the RSI(14) series from index 14; \<open>calculateRSI\<close> returns the
  empty series when there are at most 14 candles.
\<close>

theorem indicators_start_at_window:
  "length (sma20 data) = length data - 19 \<and> map x (sma20 data) = map timestamp (drop 19 data) \<and>
   length (sma50 data) = length data - 49 \<and> map x (sma50 data) = map timestamp (drop 49 data) \<and>
   length (calculateRSI data 14) = length data - 14 \<and>
   map x (calculateRSI data 14) = map timestamp (drop 14 data) \<and>
   (length data \<le> 14 \<longrightarrow> calculateRSI data 14 = [])"
  by (simp add: sma20_eq sma50_eq calculateRSI_eq wilder_rsi_def comp_def map_nth_upt_drop)

theorem indicators_start_at_window_witness:
  "length three_candles \<le> 14 \<and> calculateRSI three_candles 14 = [] \<and>
   sma20 three_candles = [] \<and> sma50 three_candles = [] \<and>
   map x (sma20 closes_10_29) = [19] \<and> map x (calculateRSI small_rise 14) = [14, 15]"
proof -
  have h: "length three_candles \<le> 14" by (simp add: three_candles_def)
  have d1: "drop 19 closes_10_29 = [candle 19 29]" by code_simp
  have d2: "drop 14 small_rise = [candle 14 (14 / 1000), candle 15 (15 / 1000)]" by code_simp
  show ?thesis
    using h indicators_start_at_window[of three_candles]
      indicators_start_at_window[of closes_10_29] indicators_start_at_window[of small_rise]
    by (simp add: d1 d2 candle_def)
qed

section \<open>Facts about the route, the fetch and the stream handler\<close>

lemma format_rows_ok:
  "list_all iterable rows \<Longrightarrow>
   map_throwing (format_row N P) rows = Inr (map (\<lambda>row. kline_of N P (elements row)) rows)"
  by (induction rows) (simp_all add: format_row_def)

lemma format_rows_throw:
  "\<not> list_all iterable rows \<Longrightarrow> map_throwing (format_row N P) rows = Inl TypeError"
proof (induction rows)
  case Nil
  then show ?case by simp
next
  case (Cons row rows)
  show ?case
  proof (cases "iterable row")
    case False
    then show ?thesis by (simp add: format_row_def)
  next
    case True
    with Cons show ?thesis by (simp add: format_row_def)
  qed
qed

lemma GET_success:
  assumes "fetch (klines_url sp) = Inr response" "ok response"
    "json response = Some (JArr rows)" "list_all iterable rows"
  shows "GET N P fetch sp =
           \<lparr>response_body = map (\<lambda>row. kline_of N P (elements row)) rows, response_status = 200\<rparr>"
  using assms by (simp add: GET_def formattedData_def format_rows_ok)

lemma GET_failure:
  assumes "\<not> (\<exists>response rows. fetch (klines_url sp) = Inr response \<and> ok response \<and>
               json response = Some (JArr rows) \<and> list_all iterable rows)"
  shows "GET N P fetch sp = \<lparr>response_body = [], response_status = 500\<rparr>"
proof (cases "fetch (klines_url sp)")
  case (Inl e)
  then show ?thesis by (simp add: GET_def formattedData_def)
next
  case (Inr response)
  show ?thesis
  proof (cases "ok response")
    case False
    with Inr show ?thesis by (simp add: GET_def formattedData_def)
  next
    case True
    show ?thesis
    proof (cases "json response")
      case None
      with Inr True show ?thesis by (simp add: GET_def formattedData_def)
    next
      case (Some data)
      show ?thesis
      proof (cases "\<exists>rows. data = JArr rows")
        case False
        with Inr True Some show ?thesis
          by (cases data) (simp_all add: GET_def formattedData_def)
      next
        case True
        then obtain rows where rows: "data = JArr rows" by blast
        with assms Inr \<open>ok response\<close> Some have "\<not> list_all iterable rows" by simp
        from format_rows_throw[OF this, of N P] have
          "map_throwing (format_row N P) rows = Inl TypeError" .
        with Inr \<open>ok response\<close> Some rows show ?thesis
          by (simp add: GET_def formattedData_def)
      qed
    qed
  qed
qed

lemma onmessage_series:
  "candlestickData (fst (onmessage pf c e s)) = candlestickData s"
  "volumeData (fst (onmessage pf c e s)) = volumeData s"
  "sma20Data (fst (onmessage pf c e s)) = sma20Data s"
  "sma50Data (fst (onmessage pf c e s)) = sma50Data s"
  "rsiData (fst (onmessage pf c e s)) = rsiData s"
  by (simp_all add: onmessage_def Let_def split: ws_message.split option.split)

lemma onmessage_twice:
  "fst (onmessage pf c2 e (fst (onmessage pf c1 e s))) = fst (onmessage pf c1 e s)"
  by (simp add: onmessage_def Let_def split: ws_message.split option.split)

lemma process_twice:
  "process_market_data md (process_market_data md s) = process_market_data md s"
  by (simp add: process_market_data_def Let_def split: option.split)

lemma fetchMarketData_Inr_iff:
  "(fetchMarketData fetch symbol interval = Inr data) =
   (data \<noteq> [] \<and> (\<exists>response. fetch (market_url symbol interval) = Inr response \<and> ok response \<and>
        json response = Some (Some data)))"
  by (auto simp: fetchMarketData_def split: sum.splits option.splits if_splits)

section \<open>Claims about the stream, the fetch and the route\<close>



text \<open>
  C6. \<open>fetchMarketData\<close> throws for every response that is not ok, whatever its
  body; it throws "No data received" for an ok response whose array is empty; and it
  returns an array exactly when the response is ok and its array is not empty, that
  array being the result. A fetch never yields a series of zero candles.
\<close>

theorem fetchMarketData_data_unavailable:
  "(fetch (market_url symbol interval) = Inr response \<and> \<not> ok response \<longrightarrow>
      isl (fetchMarketData fetch symbol interval)) \<and>
   (fetch (market_url symbol interval) = Inr response' \<and> ok response' \<and>
    json response' = Some (Some []) \<longrightarrow>
      fetchMarketData fetch symbol interval = Inl NoDataReceived) \<and>
   ((fetchMarketData fetch symbol interval = Inr data) =
      (data \<noteq> [] \<and>
       (\<exists>r. fetch (market_url symbol interval) = Inr r \<and> ok r \<and> json r = Some (Some data))))"
proof (intro conjI impI)
  assume "fetch (market_url symbol interval) = Inr response \<and> \<not> ok response"
  then show "isl (fetchMarketData fetch symbol interval)"
    by (simp add: fetchMarketData_def split: option.split)
next
  assume "fetch (market_url symbol interval) = Inr response' \<and> ok response' \<and>
    json response' = Some (Some [])"
  then show "fetchMarketData fetch symbol interval = Inl NoDataReceived"
    by (simp add: fetchMarketData_def)
next
  show "(fetchMarketData fetch symbol interval = Inr data) =
      (data \<noteq> [] \<and>
       (\<exists>r. fetch (market_url symbol interval) = Inr r \<and> ok r \<and> json r = Some (Some data)))"
    by (rule fetchMarketData_Inr_iff)
qed

theorem fetchMarketData_data_unavailable_witness:
  "\<not> ok route_error \<and> isl (fetchMarketData (\<lambda>url. Inr route_error) ''BTCUSDT'' ''1m'') \<and>
   ok route_empty \<and> json route_empty = Some (Some []) \<and>
   fetchMarketData (\<lambda>url. Inr route_empty) ''BTCUSDT'' ''1m'' = Inl NoDataReceived \<and>
   fetchMarketData (\<lambda>url. Inr route_one_candle) ''BTCUSDT'' ''1m'' = Inr [candle 0 5]"
proof -
  have h1: "\<not> ok route_error" by (simp add: route_error_def)
  have h2: "ok route_empty" "json route_empty = Some (Some [])" by (simp_all add: route_empty_def)
  have h3: "ok route_one_candle" "json route_one_candle = Some (Some [candle 0 5])"
    by (simp_all add: route_one_candle_def)
  show ?thesis
    using h1 h2 h3
      fetchMarketData_data_unavailable[where fetch = "\<lambda>url. Inr route_error"
        and symbol = "''BTCUSDT''" and interval = "''1m''" and response = route_error
        and response' = route_error and data = "[]"]
      fetchMarketData_data_unavailable[where fetch = "\<lambda>url. Inr route_empty"
        and symbol = "''BTCUSDT''" and interval = "''1m''" and response = route_empty
        and response' = route_empty and data = "[]"]
      fetchMarketData_data_unavailable[where fetch = "\<lambda>url. Inr route_one_candle"
        and symbol = "''BTCUSDT''" and interval = "''1m''" and response = route_one_candle
        and response' = route_one_candle and data = "[candle 0 5]"]
    by simp
qed

text \<open>
  C8. Delivering the same stream message a second time leaves the state exactly as the
  first delivery left it (whatever candle series the two handler closures captured), and
  no delivery changes the candle series. The same holds for a fetched batch: processing
  it twice gives the state of processing it once. A closed-candle message asks for a
  refetch at each delivery; the request is an effect, not part of the state.
\<close>

theorem stream_update_idempotent:
  "fst (onmessage parseFloat captured' event (fst (onmessage parseFloat captured event s))) =
     fst (onmessage parseFloat captured event s) \<and>
   candlestickData (fst (onmessage parseFloat captured event s)) = candlestickData s \<and>
   process_market_data marketData (process_market_data marketData s') =
     process_market_data marketData s'"
  by (simp only: onmessage_twice onmessage_series process_twice simp_thms)

theorem stream_update_idempotent_witness:
  "fst (onmessage parse_101 [\<lparr>x = 0, y = [5, 5, 5, 5]\<rparr>] closed_tick
         (fst (onmessage parse_101 [\<lparr>x = 0, y = [5, 5, 5, 5]\<rparr>] closed_tick empty_chart))) =
     empty_chart\<lparr>currentPrice := Some 101\<rparr> \<and>
   snd (onmessage parse_101 [\<lparr>x = 0, y = [5, 5, 5, 5]\<rparr>] closed_tick
         (fst (onmessage parse_101 [\<lparr>x = 0, y = [5, 5, 5, 5]\<rparr>] closed_tick empty_chart)))"
proof -
  have once: "onmessage parse_101 [\<lparr>x = 0, y = [5, 5, 5, 5]\<rparr>] closed_tick empty_chart =
                (empty_chart\<lparr>currentPrice := Some 101\<rparr>, True)"
    by (simp add: onmessage_def closed_tick_def parse_101_def)
  have again: "snd (onmessage parse_101 [\<lparr>x = 0, y = [5, 5, 5, 5]\<rparr>] closed_tick
                     (empty_chart\<lparr>currentPrice := Some 101\<rparr>))"
    by (simp add: onmessage_def closed_tick_def)
  show ?thesis
    using stream_update_idempotent[where parseFloat = parse_101
        and captured = "[\<lparr>x = 0, y = [5, 5, 5, 5]\<rparr>]"
        and captured' = "[\<lparr>x = 0, y = [5, 5, 5, 5]\<rparr>]" and event = closed_tick
        and s = empty_chart and marketData = None and s' = empty_chart]
    by (simp add: once again)
qed



text \<open>
  C10. \<open>GET\<close> is a total function of the request and of what the upstream fetch does,
  and it has two kinds of result. Either the status is 500 and the body the empty
  array; or the upstream response was ok with an array as body, the status is 200 and
  the body has one object per upstream row, in the same order, built from the row's
  elements by \<open>Number\<close> (timestamp) and \<open>parseFloat\<close> (the other five). The second
  is the result whenever the upstream response is ok and its body an array of iterable
  rows; a rejected fetch and a response that is not ok give the first.
\<close>

theorem GET_outcomes:
  "(GET Number parseFloat fetch searchParams = \<lparr>response_body = [], response_status = 500\<rparr> \<or>
    (\<exists>r rs. fetch (klines_url searchParams) = Inr r \<and> ok r \<and> json r = Some (JArr rs) \<and>
       GET Number parseFloat fetch searchParams =
         \<lparr>response_body = map (\<lambda>row. kline_of Number parseFloat (elements row)) rs,
          response_status = 200\<rparr>)) \<and>
   (fetch (klines_url searchParams) = Inr response \<and> ok response \<and>
    json response = Some (JArr rows) \<and> list_all iterable rows \<longrightarrow>
      GET Number parseFloat fetch searchParams =
        \<lparr>response_body = map (\<lambda>row. kline_of Number parseFloat (elements row)) rows,
         response_status = 200\<rparr>) \<and>
   (fetch (klines_url searchParams) = Inl e \<longrightarrow>
      GET Number parseFloat fetch searchParams = \<lparr>response_body = [], response_status = 500\<rparr>) \<and>
   (fetch (klines_url searchParams) = Inr response' \<and> \<not> ok response' \<longrightarrow>
      GET Number parseFloat fetch searchParams = \<lparr>response_body = [], response_status = 500\<rparr>)"
proof (intro conjI impI)
  show "GET Number parseFloat fetch searchParams = \<lparr>response_body = [], response_status = 500\<rparr> \<or>
    (\<exists>r rs. fetch (klines_url searchParams) = Inr r \<and> ok r \<and> json r = Some (JArr rs) \<and>
       GET Number parseFloat fetch searchParams =
         \<lparr>response_body = map (\<lambda>row. kline_of Number parseFloat (elements row)) rs,
          response_status = 200\<rparr>)"
  proof (cases "\<exists>r rs. fetch (klines_url searchParams) = Inr r \<and> ok r \<and>
                  json r = Some (JArr rs) \<and> list_all iterable rs")
    case True
    then obtain r rs where "fetch (klines_url searchParams) = Inr r" "ok r"
      "json r = Some (JArr rs)" "list_all iterable rs" by blast
    then show ?thesis
      using GET_success[of fetch searchParams r rs Number parseFloat] by blast
  next
    case False
    then show ?thesis
      using GET_failure[of fetch searchParams Number parseFloat] by blast
  qed
next
  assume "fetch (klines_url searchParams) = Inr response \<and> ok response \<and>
    json response = Some (JArr rows) \<and> list_all iterable rows"
  then show "GET Number parseFloat fetch searchParams =
        \<lparr>response_body = map (\<lambda>row. kline_of Number parseFloat (elements row)) rows,
         response_status = 200\<rparr>"
    using GET_success[of fetch searchParams response rows Number parseFloat] by blast
next
  assume "fetch (klines_url searchParams) = Inl e"
  then show "GET Number parseFloat fetch searchParams =
      \<lparr>response_body = [], response_status = 500\<rparr>"
    by (simp add: GET_def formattedData_def)
next
  assume "fetch (klines_url searchParams) = Inr response' \<and> \<not> ok response'"
  then show "GET Number parseFloat fetch searchParams =
      \<lparr>response_body = [], response_status = 500\<rparr>"
    by (simp add: GET_def formattedData_def)
qed

theorem GET_outcomes_witness:
  "GET (\<lambda>v. v) (\<lambda>v. v) (\<lambda>url. Inr upstream_rows) Map.empty =
     \<lparr>response_body =
        [\<lparr>timestamp = JNum 60000, open = JStr ''1.0'', high = JStr ''2.0'', low = JStr ''0.5'',
          close = JStr ''1.5'', volume = JStr ''10.0''\<rparr>,
         \<lparr>timestamp = JNum 120000, open = JStr ''1.5'', high = JUndefined, low = JUndefined,
          close = JUndefined, volume = JUndefined\<rparr>],
      response_status = 200\<rparr> \<and>
   GET (\<lambda>v. v) (\<lambda>v. v) (\<lambda>url. Inl Rejected) Map.empty =
     \<lparr>response_body = [], response_status = 500\<rparr> \<and>
   \<not> ok upstream_refused \<and>
   GET (\<lambda>v. v) (\<lambda>v. v) (\<lambda>url. Inr upstream_refused) Map.empty =
     \<lparr>response_body = [], response_status = 500\<rparr>"
proof -
  have h1: "ok upstream_rows"
    "json upstream_rows =
       Some (JArr [JArr [JNum 60000, JStr ''1.0'', JStr ''2.0'', JStr ''0.5'', JStr ''1.5'',
                         JStr ''10.0'', JNum 119999],
                   JArr [JNum 120000, JStr ''1.5'']])"
    by (simp_all add: upstream_rows_def)
  have h2: "\<not> ok upstream_refused" by (simp add: upstream_refused_def)
  show ?thesis
    using h1 h2
      GET_outcomes[where Number = "\<lambda>v. v" and parseFloat = "\<lambda>v. v"
        and fetch = "\<lambda>url. Inr upstream_rows" and searchParams = Map.empty
        and response = upstream_rows and response' = upstream_rows and e = Rejected
        and rows = "[JArr [JNum 60000, JStr ''1.0'', JStr ''2.0'', JStr ''0.5'', JStr ''1.5'',
                         JStr ''10.0'', JNum 119999],
                   JArr [JNum 120000, JStr ''1.5'']]"]
      GET_outcomes[where Number = "\<lambda>v. v" and parseFloat = "\<lambda>v. v"
        and fetch = "\<lambda>url. Inl Rejected" and searchParams = Map.empty
        and response = upstream_rows and response' = upstream_rows and e = Rejected
        and rows = "[]"]
      GET_outcomes[where Number = "\<lambda>v. v" and parseFloat = "\<lambda>v. v"
        and fetch = "\<lambda>url. Inr upstream_refused" and searchParams = Map.empty
        and response = upstream_refused and response' = upstream_refused and e = Rejected
        and rows = "[]"]
    by (simp add: kline_of_def elem_at_def)
qed

end
